theory Spec2Isabelle
  imports Main
begin

section \<open>The syntax tree delivered by the parser\<close>

text \<open>
  The program reads Python's \<^verbatim>\<open>ast\<close> trees. Only the node kinds and
  fields that \<^verbatim>\<open>__main__.py\<close> inspects are distinguished; every other
  expression or statement is one of the remaining constructors. Texts are \<open>string\<close>s.
\<close>

datatype expr =
    Name string
  | Call expr "expr list" "(string option \<times> expr) list"
  | Attribute expr string
  | Subscript expr expr
  | Tuple "expr list"
  | Constant string

text \<open>
  \<open>Call func args keywords\<close>: the positional arguments are \<open>args\<close>; a keyword
  argument \<^verbatim>\<open>k=v\<close> is \<open>(Some k, v)\<close> and \<^verbatim>\<open>**v\<close> is \<open>(None, v)\<close>,
  as in \<^verbatim>\<open>ast.keyword\<close>.
\<close>

record arg =
  arg :: string
  annotation :: "expr option"

record arguments =
  posonlyargs :: "arg list"
  args :: "arg list"
  vararg :: "arg option"
  kwonlyargs :: "arg list"
  kw_defaults :: "expr option list"
  kwarg :: "arg option"
  defaults :: "expr list"

text \<open>
  An assignment statement of the grammar has at least one target, so \<open>Assign\<close> keeps
  \<^verbatim>\<open>targets[0]\<close> and the remaining targets apart. An annotated assignment always
  has its annotation.
\<close>

datatype stmt =
    FunctionDef (name: string) (fn_args: arguments) (body: "stmt list")
      (decorator_list: "expr list") (returns: "expr option")
  | AsyncFunctionDef (name: string) (fn_args: arguments) (body: "stmt list")
      (decorator_list: "expr list") (returns: "expr option")
  | ClassDef (name: string) (bases: "expr list") (body: "stmt list")
      (decorator_list: "expr list")
  | Assign expr "expr list" expr
  | AnnAssign expr expr "expr option"
  | AugAssign expr string expr
  | If expr "stmt list" "stmt list"
  | Expr expr
  | Import string
  | Pass

section \<open>Strings\<close>

text \<open>\<^verbatim>\<open>sep.join(xs)\<close>\<close>

fun join :: "string \<Rightarrow> string list \<Rightarrow> string" where
  "join sep [] = []"
| "join sep [x] = x"
| "join sep (x # y # ys) = x @ sep @ join sep (y # ys)"

section \<open>Signatures and decorators\<close>

text \<open>
  \<^verbatim>\<open>ast.unparse\<close> belongs to the standard library, not to this program: it is a
  parameter \<open>unparse\<close> of everything that calls it.
\<close>

text \<open>The loop of lines 13-18: one pair per entry of \<^verbatim>\<open>node.args.args\<close>.\<close>

fun args_loop :: "(expr \<Rightarrow> string) \<Rightarrow> arg list \<Rightarrow> (string \<times> string option) list
    \<Rightarrow> (string \<times> string option) list" where
  "args_loop unparse [] args_info = args_info"
| "args_loop unparse (a # rest) args_info =
     (let arg_name = arg a;
          arg_type = (case annotation a of None \<Rightarrow> None | Some ann \<Rightarrow> Some (unparse ann))
      in args_loop unparse rest (args_info @ [(arg_name, arg_type)]))"

definition get_arguments_and_hints ::
    "(expr \<Rightarrow> string) \<Rightarrow> stmt \<Rightarrow> (string \<times> string option) list \<times> string option" where
  "get_arguments_and_hints unparse node =
     (let args_info = args_loop unparse (args (fn_args node)) [];
          args_info = (case vararg (fn_args node) of
                         None \<Rightarrow> args_info
                       | Some v \<Rightarrow> args_info @ [(''*'' @ arg v, None)]);
          args_info = (case kwarg (fn_args node) of
                         None \<Rightarrow> args_info
                       | Some k \<Rightarrow> args_info @ [(''**'' @ arg k, None)]);
          return_type = (case returns node of None \<Rightarrow> None | Some r \<Rightarrow> Some (unparse r))
      in (args_info, return_type))"

text \<open>Lines 36-43: the text appended for one decorator expression.\<close>

fun decorator_text :: "(expr \<Rightarrow> string) \<Rightarrow> expr \<Rightarrow> string" where
  "decorator_text unparse (Name ident) = ident"
| "decorator_text unparse (Call func cargs keywords) =
     (let func_name = unparse func;
          joined = join '', '' (map unparse cargs)
      in if joined \<noteq> [] then func_name @ ''('' @ joined @ '')'' else func_name)"
| "decorator_text unparse decorator = unparse decorator"

fun get_decorators_loop :: "(expr \<Rightarrow> string) \<Rightarrow> expr list \<Rightarrow> string list \<Rightarrow> string list" where
  "get_decorators_loop unparse [] decorators = decorators"
| "get_decorators_loop unparse (decorator # rest) decorators =
     get_decorators_loop unparse rest (decorators @ [decorator_text unparse decorator])"

definition get_decorators :: "(expr \<Rightarrow> string) \<Rightarrow> stmt \<Rightarrow> string list" where
  "get_decorators unparse node = get_decorators_loop unparse (decorator_list node) []"

section \<open>Extraction\<close>

text \<open>
  The dictionaries built by \<^verbatim>\<open>analyze_file\<close>: one shape for methods and
  functions (\<^verbatim>\<open>name, args, return_type, decorators\<close>), one for attributes
  (\<^verbatim>\<open>name, type\<close>), one for classes.
\<close>

record function_rec =
  f_name :: string
  f_args :: "(string \<times> string option) list"
  f_return_type :: "string option"
  f_decorators :: "string list"

record attribute_rec =
  a_name :: string
  a_type :: "string option"

record class_rec =
  c_name :: string
  c_decorators :: "string list"
  c_methods :: "function_rec list"
  c_attributes :: "attribute_rec list"

text \<open>Python's truth value of an optional text: \<^verbatim>\<open>None\<close> and \<^verbatim>\<open>""\<close> are false.\<close>

definition truthy :: "string option \<Rightarrow> bool" where
  "truthy x = (case x of None \<Rightarrow> False | Some s \<Rightarrow> s \<noteq> [])"

text \<open>\<^verbatim>\<open>t.id if isinstance(t, ast.Name) else None\<close>\<close>

definition target_name :: "expr \<Rightarrow> string option" where
  "target_name t = (case t of Name ident \<Rightarrow> Some ident | _ \<Rightarrow> None)"

text \<open>The record built at lines 65-72 and 96-103.\<close>

definition function_record :: "(expr \<Rightarrow> string) \<Rightarrow> stmt \<Rightarrow> function_rec" where
  "function_record unparse node =
     (let (args_info, return_type) = get_arguments_and_hints unparse node;
          function_decorators = get_decorators unparse node
      in \<lparr>f_name = name node, f_args = args_info, f_return_type = return_type,
          f_decorators = function_decorators\<rparr>)"

text \<open>Lines 83-87: append an attribute when \<^verbatim>\<open>name\<close> is true.\<close>

definition add_attribute :: "string option \<Rightarrow> string option \<Rightarrow> attribute_rec list \<Rightarrow> attribute_rec list" where
  "add_attribute nm ann class_attributes =
     (case nm of
        None \<Rightarrow> class_attributes
      | Some n \<Rightarrow> if n \<noteq> [] then class_attributes @ [\<lparr>a_name = n, a_type = ann\<rparr>]
                  else class_attributes)"

text \<open>One round of the loop over a class body (lines 63-87).\<close>

fun class_child :: "(expr \<Rightarrow> string) \<Rightarrow> stmt \<Rightarrow> function_rec list \<times> attribute_rec list
    \<Rightarrow> function_rec list \<times> attribute_rec list" where
  "class_child unparse (FunctionDef n a b d r) (class_methods, class_attributes) =
     (class_methods @ [function_record unparse (FunctionDef n a b d r)], class_attributes)"
| "class_child unparse (AnnAssign target ann v) (class_methods, class_attributes) =
     (class_methods, add_attribute (target_name target) (Some (unparse ann)) class_attributes)"
| "class_child unparse (Assign target0 targets v) (class_methods, class_attributes) =
     (class_methods, add_attribute (target_name target0) None class_attributes)"
| "class_child unparse child (class_methods, class_attributes) = (class_methods, class_attributes)"

fun class_body_loop :: "(expr \<Rightarrow> string) \<Rightarrow> stmt list \<Rightarrow> function_rec list \<times> attribute_rec list
    \<Rightarrow> function_rec list \<times> attribute_rec list" where
  "class_body_loop unparse [] acc = acc"
| "class_body_loop unparse (child # rest) acc =
     class_body_loop unparse rest (class_child unparse child acc)"

text \<open>The record built for a class at lines 58-94.\<close>

definition class_record :: "(expr \<Rightarrow> string) \<Rightarrow> stmt \<Rightarrow> class_rec" where
  "class_record unparse node =
     (let class_decorators = get_decorators unparse node;
          (class_methods, class_attributes) = class_body_loop unparse (body node) ([], [])
      in \<lparr>c_name = name node, c_decorators = class_decorators,
          c_methods = class_methods, c_attributes = class_attributes\<rparr>)"

text \<open>One round of the loop over the module body (lines 55-103).\<close>

fun top_level_node :: "(expr \<Rightarrow> string) \<Rightarrow> bool \<Rightarrow> bool \<Rightarrow> stmt
    \<Rightarrow> class_rec list \<times> function_rec list \<Rightarrow> class_rec list \<times> function_rec list" where
  "top_level_node unparse include_classes include_functions (ClassDef n bs b d) (classes, functions) =
     (if include_classes
      then (classes @ [class_record unparse (ClassDef n bs b d)], functions)
      else (classes, functions))"
| "top_level_node unparse include_classes include_functions (FunctionDef n a b d r) (classes, functions) =
     (if include_functions
      then (classes, functions @ [function_record unparse (FunctionDef n a b d r)])
      else (classes, functions))"
| "top_level_node unparse include_classes include_functions node (classes, functions) =
     (classes, functions)"

fun module_loop :: "(expr \<Rightarrow> string) \<Rightarrow> bool \<Rightarrow> bool \<Rightarrow> stmt list
    \<Rightarrow> class_rec list \<times> function_rec list \<Rightarrow> class_rec list \<times> function_rec list" where
  "module_loop unparse include_classes include_functions [] acc = acc"
| "module_loop unparse include_classes include_functions (node # rest) acc =
     module_loop unparse include_classes include_functions rest
       (top_level_node unparse include_classes include_functions node acc)"

text \<open>
  What can be raised while a file is opened, read and parsed. The standard library's
  \<^verbatim>\<open>open(...).read()\<close>, \<^verbatim>\<open>ast.parse\<close>, \<^verbatim>\<open>ast.unparse\<close> and
  \<^verbatim>\<open>fnmatch.fnmatch\<close> are the fields of \<open>externals\<close>.
\<close>

datatype error = SyntaxError | OSError | UnicodeDecodeError

record externals =
  open_read :: "string \<Rightarrow> error + string"
  ast_parse :: "string \<Rightarrow> error + stmt list"
  ast_unparse :: "expr \<Rightarrow> string"
  fnmatch :: "string \<Rightarrow> string \<Rightarrow> bool"

definition analyze_file :: "externals \<Rightarrow> string \<Rightarrow> bool \<Rightarrow> bool
    \<Rightarrow> error + (class_rec list \<times> function_rec list)" where
  "analyze_file E filepath include_classes include_functions =
     (case open_read E filepath of
        Inl e \<Rightarrow> Inl e
      | Inr text \<Rightarrow>
          (case ast_parse E text of
             Inl e \<Rightarrow> Inl e
           | Inr tree_body \<Rightarrow>
               Inr (module_loop (ast_unparse E) include_classes include_functions tree_body ([], []))))"

section \<open>Rendering\<close>

abbreviation nl :: string where
  "nl \<equiv> [CHR 0x0A]"

text \<open>Lines 123-124.\<close>

fun class_decorators_loop :: "string list \<Rightarrow> string list \<Rightarrow> string list" where
  "class_decorators_loop [] output = output"
| "class_decorators_loop (decorator # rest) output =
     class_decorators_loop rest (output @ [''  @'' @ decorator])"

text \<open>Lines 131-133.\<close>

fun attributes_loop :: "attribute_rec list \<Rightarrow> string list \<Rightarrow> string list" where
  "attributes_loop [] output = output"
| "attributes_loop (attribute # rest) output =
     (let attr_type = (if truthy (a_type attribute)
                       then '': '' @ (case a_type attribute of Some t \<Rightarrow> t | None \<Rightarrow> [])
                       else [])
      in attributes_loop rest (output @ [''    '' @ a_name attribute @ attr_type]))"

text \<open>
  Lines 140-142 and 159-161: \<^verbatim>\<open>enumerate\<close> over the decorators, the prefix of
  the first line and the prefix of the others being those of the caller.
\<close>

fun decorators_output_loop :: "string \<Rightarrow> string \<Rightarrow> nat \<Rightarrow> string list \<Rightarrow> string list
    \<Rightarrow> string list" where
  "decorators_output_loop first other i [] decorators_output = decorators_output"
| "decorators_output_loop first other i (decorator # rest) decorators_output =
     (let prefix = (if i = 0 then first else other)
      in decorators_output_loop first other (Suc i) rest
           (decorators_output @ [prefix @ ''@'' @ decorator]))"

definition method_decorators_output :: "function_rec \<Rightarrow> string list" where
  "method_decorators_output method =
     (if f_decorators method \<noteq> []
      then decorators_output_loop ''    '' ''    |'' 0 (f_decorators method) []
      else [])"

definition function_decorators_output :: "function_rec \<Rightarrow> string list" where
  "function_decorators_output function =
     (if f_decorators function \<noteq> []
      then decorators_output_loop ''   '' ''  |'' 0 (f_decorators function) []
      else [])"

text \<open>Lines 143-145 and 162-164: the argument list of a method or function.\<close>

definition arg_text :: "string \<times> string option \<Rightarrow> string" where
  "arg_text p =
     (case p of (nm, hint) \<Rightarrow>
        if truthy hint then nm @ '': '' @ (case hint of Some h \<Rightarrow> h | None \<Rightarrow> []) else nm)"

definition args_text :: "function_rec \<Rightarrow> string" where
  "args_text f = join '', '' (map arg_text (f_args f))"

definition return_text :: "function_rec \<Rightarrow> string" where
  "return_text f =
     (if truthy (f_return_type f)
      then '' -> '' @ (case f_return_type f of Some t \<Rightarrow> t | None \<Rightarrow> [])
      else [])"

text \<open>One round of the loop over the methods of a class (lines 137-151).\<close>

definition method_round :: "bool \<Rightarrow> function_rec \<Rightarrow> string list \<Rightarrow> string list" where
  "method_round minimalistic method output =
     (let decorators_output = method_decorators_output method;
          method_output =
            (if minimalistic
             then ''    '' @ f_name method @ ''('' @ args_text method @ '')'' @ return_text method
             else ''    Method: '' @ f_name method @ ''('' @ args_text method @ '')''
                    @ return_text method);
          output = (if decorators_output \<noteq> [] then output @ [join nl decorators_output]
                    else output);
          output = output @ [method_output]
      in output @ [[]])"

fun methods_loop :: "bool \<Rightarrow> function_rec list \<Rightarrow> string list \<Rightarrow> string list" where
  "methods_loop minimalistic [] output = output"
| "methods_loop minimalistic (method # rest) output =
     methods_loop minimalistic rest (method_round minimalistic method output)"

text \<open>One round of the loop over the classes (lines 116-151).\<close>

definition class_round :: "bool \<Rightarrow> bool \<Rightarrow> class_rec \<Rightarrow> string list \<Rightarrow> string list" where
  "class_round minimalistic no_attributes class_data output =
     (let class_name = c_name class_data;
          class_decorators = c_decorators class_data;
          class_attributes = c_attributes class_data;
          output = (if class_decorators \<noteq> []
                    then class_decorators_loop class_decorators output else output);
          output = output @ [''  Class: '' @ class_name];
          output = output @ [[]];
          output = (if \<not> no_attributes \<and> class_attributes \<noteq> []
                    then attributes_loop class_attributes output @ [[]] else output)
      in methods_loop minimalistic (c_methods class_data) output)"

fun classes_loop :: "bool \<Rightarrow> bool \<Rightarrow> class_rec list \<Rightarrow> string list \<Rightarrow> string list" where
  "classes_loop minimalistic no_attributes [] output = output"
| "classes_loop minimalistic no_attributes (class_data # rest) output =
     classes_loop minimalistic no_attributes rest
       (class_round minimalistic no_attributes class_data output)"

text \<open>One round of the loop over the functions (lines 156-170).\<close>

definition function_round :: "bool \<Rightarrow> function_rec \<Rightarrow> string list \<Rightarrow> string list" where
  "function_round minimalistic function output =
     (let decorators_output = function_decorators_output function;
          function_output =
            (if minimalistic
             then ''    '' @ f_name function @ ''('' @ args_text function @ '')''
                    @ return_text function
             else ''  Function: '' @ f_name function @ ''('' @ args_text function @ '')''
                    @ return_text function);
          output = (if decorators_output \<noteq> [] then output @ [join nl decorators_output]
                    else output);
          output = output @ [function_output]
      in output @ [[]])"

fun functions_loop :: "bool \<Rightarrow> function_rec list \<Rightarrow> string list \<Rightarrow> string list" where
  "functions_loop minimalistic [] output = output"
| "functions_loop minimalistic (function # rest) output =
     functions_loop minimalistic rest (function_round minimalistic function output)"

text \<open>The list \<^verbatim>\<open>output\<close> at line 174, before it is joined.\<close>

definition output_lines :: "string \<Rightarrow> class_rec list \<Rightarrow> function_rec list \<Rightarrow> bool \<Rightarrow> bool
    \<Rightarrow> bool \<Rightarrow> bool \<Rightarrow> string list" where
  "output_lines filepath classes functions include_classes include_functions minimalistic
       no_attributes =
     (if (include_classes \<and> classes \<noteq> []) \<or> (include_functions \<and> functions \<noteq> []) then
        (let output = [''=== '' @ filepath @ '': ==='', []];
             output = (if include_classes \<and> classes \<noteq> []
                       then classes_loop minimalistic no_attributes classes output
                       else output);
             output = (if include_functions \<and> functions \<noteq> [] then
                         (let output = (if minimalistic then output @ [''  Functions:'' @ nl]
                                        else output);
                              output = functions_loop minimalistic functions output
                          in output @ [[]])
                       else output)
         in output @ [[]])
      else [])"

definition format_output :: "string \<Rightarrow> class_rec list \<Rightarrow> function_rec list \<Rightarrow> bool \<Rightarrow> bool
    \<Rightarrow> bool \<Rightarrow> bool \<Rightarrow> string" where
  "format_output filepath classes functions include_classes include_functions minimalistic
       no_attributes =
     join nl (output_lines filepath classes functions include_classes include_functions
                minimalistic no_attributes)"

section \<open>The driver\<close>

text \<open>
  \<^verbatim>\<open>str.strip()\<close> removes white space at both ends; the characters below 256 that
  Python counts as white space are listed.
\<close>

definition is_space :: "char \<Rightarrow> bool" where
  "is_space c = (of_char c \<in> set [9, 10, 11, 12, 13, 28, 29, 30, 31, 32, 133, 160 :: nat])"

definition strip :: "string \<Rightarrow> string" where
  "strip s = rev (dropWhile is_space (rev (dropWhile is_space s)))"

definition endswith :: "string \<Rightarrow> string \<Rightarrow> bool" where
  "endswith s suffix = (take (length suffix) (rev s) = rev suffix)"

text \<open>\<^verbatim>\<open>s.split(sep)\<close> for a separator of one character.\<close>

fun split :: "char \<Rightarrow> string \<Rightarrow> string list" where
  "split sep [] = [[]]"
| "split sep (c # cs) =
     (if c = sep then [] # split sep cs
      else (case split sep cs of [] \<Rightarrow> [[c]] | w # ws \<Rightarrow> (c # w) # ws))"

text \<open>\<^verbatim>\<open>os.path.join(a, b)\<close> on a POSIX system.\<close>

definition path_join :: "string \<Rightarrow> string \<Rightarrow> string" where
  "path_join a b =
     (if take 1 b = ''/'' then b
      else if a = [] \<or> endswith a ''/'' then a @ b
      else a @ ''/'' @ b)"

definition DEFAULT_EXCLUDES :: "string list" where
  "DEFAULT_EXCLUDES =
     [''.git'', ''.venv*'', ''.venv_test'', ''__pycache__'', ''*.egg-info'', ''build'', ''dist'']"

text \<open>\<^verbatim>\<open>any(fnmatch.fnmatch(x, p) for p in exclude_patterns)\<close>\<close>

definition excluded :: "externals \<Rightarrow> string list \<Rightarrow> string \<Rightarrow> bool" where
  "excluded E exclude_patterns x = list_ex (fnmatch E x) exclude_patterns"

text \<open>The namespace returned by \<^verbatim>\<open>parser.parse_args()\<close>.\<close>

record cli_args =
  args_directory :: string
  args_functions_only :: bool
  args_classes_only :: bool
  args_no_attributes :: bool
  args_minimalistic :: bool
  args_output :: "string option"
  args_exclude :: "string option"

text \<open>
  What has been written so far: the standard output, and the output file when
  \<^verbatim>\<open>--output\<close> opened one.
\<close>

record sinks =
  stdout :: string
  output_file :: "string option"

text \<open>Lines 231-235.\<close>

definition emit :: "string \<Rightarrow> sinks \<Rightarrow> sinks" where
  "emit result st =
     (if strip result \<noteq> [] then
        (case output_file st of
           Some written \<Rightarrow> st\<lparr>output_file := Some (written @ result)\<rparr>
         | None \<Rightarrow> st\<lparr>stdout := stdout st @ result @ nl\<rparr>)
      else st)"

text \<open>
  The loop over the files of one directory (lines 222-235). An exception raised by
  \<^verbatim>\<open>analyze_file\<close> is caught nowhere: the loop ends with it, and with what had
  been written until then.
\<close>

fun files_loop :: "externals \<Rightarrow> cli_args \<Rightarrow> string list \<Rightarrow> bool \<Rightarrow> bool \<Rightarrow> string
    \<Rightarrow> string list \<Rightarrow> sinks \<Rightarrow> sinks \<times> error option" where
  "files_loop E a exclude_patterns include_classes include_functions root [] st = (st, None)"
| "files_loop E a exclude_patterns include_classes include_functions root (file # rest) st =
     (if endswith file ''.py'' \<and> \<not> excluded E exclude_patterns file then
        (let filepath = path_join root file
         in case analyze_file E filepath include_classes include_functions of
              Inl e \<Rightarrow> (st, Some e)
            | Inr (classes, functions) \<Rightarrow>
                (let result = format_output filepath classes functions include_classes
                                include_functions (args_minimalistic a) (args_no_attributes a)
                 in files_loop E a exclude_patterns include_classes include_functions root rest
                      (emit result st)))
      else files_loop E a exclude_patterns include_classes include_functions root rest st)"

text \<open>
  A directory: the names of its files and its subdirectories, in the order in which
  \<^verbatim>\<open>os.walk\<close> lists them. The walk is top-down: the files of a directory come
  first, then each subdirectory that line 221 has kept.
\<close>

datatype dir_tree = Dir "string list" "(string \<times> dir_tree) list"

fun walk_loop :: "externals \<Rightarrow> cli_args \<Rightarrow> string list \<Rightarrow> bool \<Rightarrow> bool \<Rightarrow> string
    \<Rightarrow> dir_tree \<Rightarrow> sinks \<Rightarrow> sinks \<times> error option"
and walk_dirs :: "externals \<Rightarrow> cli_args \<Rightarrow> string list \<Rightarrow> bool \<Rightarrow> bool \<Rightarrow> string
    \<Rightarrow> (string \<times> dir_tree) list \<Rightarrow> sinks \<Rightarrow> sinks \<times> error option" where
  "walk_loop E a exclude_patterns include_classes include_functions root (Dir files dirs) st =
     (case files_loop E a exclude_patterns include_classes include_functions root files st of
        (st', Some e) \<Rightarrow> (st', Some e)
      | (st', None) \<Rightarrow>
          walk_dirs E a exclude_patterns include_classes include_functions root dirs st')"
| "walk_dirs E a exclude_patterns include_classes include_functions root [] st = (st, None)"
| "walk_dirs E a exclude_patterns include_classes include_functions root ((d, t) # rest) st =
     (if excluded E exclude_patterns d
      then walk_dirs E a exclude_patterns include_classes include_functions root rest st
      else (case walk_loop E a exclude_patterns include_classes include_functions
                    (path_join root d) t st of
              (st', Some e) \<Rightarrow> (st', Some e)
            | (st', None) \<Rightarrow>
                walk_dirs E a exclude_patterns include_classes include_functions root rest st'))"

text \<open>Lines 202-204: the default patterns and those of \<^verbatim>\<open>--exclude\<close>.\<close>

definition exclude_patterns_of :: "cli_args \<Rightarrow> string list" where
  "exclude_patterns_of a =
     DEFAULT_EXCLUDES @
     (if truthy (args_exclude a)
      then split (CHR ''|'') (case args_exclude a of Some x \<Rightarrow> x | None \<Rightarrow> [])
      else [])"

text \<open>Line 216: nothing is written yet; the output file exists when \<^verbatim>\<open>--output\<close> names one.\<close>

definition opened_sinks :: "cli_args \<Rightarrow> sinks" where
  "opened_sinks a =
     \<lparr>stdout = [], output_file = (if truthy (args_output a) then Some [] else None)\<rparr>"

text \<open>
  \<^verbatim>\<open>run\<close>, from the parsed arguments on; \<open>tree\<close> is the directory found at
  \<^verbatim>\<open>args.directory\<close>. The result is what was written and the exception that
  ended the run, if one did.
\<close>

definition run :: "externals \<Rightarrow> cli_args \<Rightarrow> dir_tree \<Rightarrow> sinks \<times> error option" where
  "run E a tree =
     (let directory = args_directory a;
          exclude_patterns = exclude_patterns_of a;
          include_classes = \<not> args_functions_only a;
          include_functions = \<not> args_classes_only a
      in if args_functions_only a \<and> args_classes_only a then
           (\<lparr>stdout = ''You can'' @ [CHR 0x27]
                        @ ''t use both --functions-only and --classes-only.'' @ nl,
             output_file = None\<rparr>, None)
         else
           walk_loop E a exclude_patterns include_classes include_functions directory
             tree (opened_sinks a))"

section \<open>Notions used in the statements\<close>

text \<open>
  The paths that the two nested loops of \<^verbatim>\<open>run\<close> hand to
  \<^verbatim>\<open>analyze_file\<close>, in the order of the walk, and the same loops run over such
  a list of paths.
\<close>

fun walked_files :: "externals \<Rightarrow> string list \<Rightarrow> string \<Rightarrow> dir_tree \<Rightarrow> string list"
and walked_dirs :: "externals \<Rightarrow> string list \<Rightarrow> string \<Rightarrow> (string \<times> dir_tree) list \<Rightarrow> string list" where
  "walked_files E exclude_patterns root (Dir files dirs) =
     map (path_join root)
       (filter (\<lambda>file. endswith file ''.py'' \<and> \<not> excluded E exclude_patterns file) files)
     @ walked_dirs E exclude_patterns root dirs"
| "walked_dirs E exclude_patterns root [] = []"
| "walked_dirs E exclude_patterns root ((d, t) # rest) =
     (if excluded E exclude_patterns d then []
      else walked_files E exclude_patterns (path_join root d) t)
     @ walked_dirs E exclude_patterns root rest"

fun process_files :: "externals \<Rightarrow> cli_args \<Rightarrow> bool \<Rightarrow> bool \<Rightarrow> string list \<Rightarrow> sinks
    \<Rightarrow> sinks \<times> error option" where
  "process_files E a include_classes include_functions [] st = (st, None)"
| "process_files E a include_classes include_functions (filepath # rest) st =
     (case analyze_file E filepath include_classes include_functions of
        Inl e \<Rightarrow> (st, Some e)
      | Inr (classes, functions) \<Rightarrow>
          process_files E a include_classes include_functions rest
            (emit (format_output filepath classes functions include_classes include_functions
                     (args_minimalistic a) (args_no_attributes a)) st))"

fun is_class_def :: "stmt \<Rightarrow> bool" where
  "is_class_def (ClassDef n bs b d) = True"
| "is_class_def node = False"

fun is_function_def :: "stmt \<Rightarrow> bool" where
  "is_function_def (FunctionDef n a b d r) = True"
| "is_function_def node = False"

section \<open>Sample inputs\<close>

text \<open>
  A stand-in for the standard library, used only by the closed instances below: two
  files, of which \<^verbatim>\<open>./bad.py\<close> does not parse; names, constants and attribute
  accesses are unparsed as written, other expressions as \<^verbatim>\<open>...\<close>; a pattern
  matches the name equal to it.
\<close>

fun sample_unparse :: "expr \<Rightarrow> string" where
  "sample_unparse (Name ident) = ident"
| "sample_unparse (Constant c) = c"
| "sample_unparse (Attribute v a) = sample_unparse v @ ''.'' @ a"
| "sample_unparse e = ''...''"

definition no_arguments :: arguments where
  "no_arguments = \<lparr>posonlyargs = [], args = [], vararg = None, kwonlyargs = [],
     kw_defaults = [], kwarg = None, defaults = []\<rparr>"

definition sample_externals :: externals where
  "sample_externals =
     \<lparr>open_read = (\<lambda>p. if p = ''./bad.py'' then Inr ''def f(:''
                        else if p = ''./good.py'' then Inr ''def f(): pass''
                        else if p = ''./empty.py'' then Inr ''import os''
                        else Inl OSError),
      ast_parse = (\<lambda>t. if t = ''def f(): pass''
                        then Inr [FunctionDef ''f'' no_arguments [Pass] [] None]
                        else if t = ''import os'' then Inr [Import ''os'']
                        else Inl SyntaxError),
      ast_unparse = sample_unparse,
      fnmatch = (\<lambda>n p. n = p)\<rparr>"

definition sample_args :: cli_args where
  "sample_args = \<lparr>args_directory = ''.'', args_functions_only = False,
     args_classes_only = False, args_no_attributes = False, args_minimalistic = False,
     args_output = None, args_exclude = None\<rparr>"

section \<open>The loops as maps and concatenations\<close>

lemma args_loop_append:
  "args_loop u as acc = acc @ map (\<lambda>a. (arg a, map_option u (annotation a))) as"
  by (induction as arbitrary: acc) (auto simp: Let_def split: option.splits)

lemma get_decorators_loop_append:
  "get_decorators_loop u ds acc = acc @ map (decorator_text u) ds"
  by (induction ds arbitrary: acc) auto

lemma class_child_append:
  "class_child u child (ms, ats) =
     (ms @ fst (class_child u child ([], [])), ats @ snd (class_child u child ([], [])))"
  by (cases child) (auto simp: add_attribute_def split: option.splits)

lemma class_body_loop_append:
  "class_body_loop u stmts (ms, ats) =
     (ms @ concat (map (\<lambda>c. fst (class_child u c ([], []))) stmts),
      ats @ concat (map (\<lambda>c. snd (class_child u c ([], []))) stmts))"
proof (induction stmts arbitrary: ms ats)
  case Nil
  show ?case by simp
next
  case (Cons c cs)
  show ?case
    by (subst class_body_loop.simps, subst class_child_append) (simp add: Cons.IH)
qed

lemma top_level_node_append:
  "top_level_node u ic fi node (cs, fs) =
     (cs @ fst (top_level_node u ic fi node ([], [])),
      fs @ snd (top_level_node u ic fi node ([], [])))"
  by (cases node) auto

lemma module_loop_append:
  "module_loop u ic fi stmts (cs, fs) =
     (cs @ concat (map (\<lambda>n. fst (top_level_node u ic fi n ([], []))) stmts),
      fs @ concat (map (\<lambda>n. snd (top_level_node u ic fi n ([], []))) stmts))"
proof (induction stmts arbitrary: cs fs)
  case Nil
  show ?case by simp
next
  case (Cons n ns)
  show ?case
    by (subst module_loop.simps, subst top_level_node_append) (simp add: Cons.IH)
qed

lemma class_decorators_loop_append:
  "class_decorators_loop ds out = out @ map (\<lambda>d. ''  @'' @ d) ds"
  by (induction ds arbitrary: out) auto

lemma attributes_loop_append:
  "attributes_loop ats out =
     out @ map (\<lambda>at. ''    '' @ a_name at @
                 (case a_type at of None \<Rightarrow> [] | Some t \<Rightarrow> if t = [] then [] else '': '' @ t)) ats"
  by (induction ats arbitrary: out) (auto simp: truthy_def Let_def split: option.splits)

lemma decorators_output_loop_later:
  "0 < i \<Longrightarrow> decorators_output_loop first other i ds acc = acc @ map (\<lambda>x. other @ ''@'' @ x) ds"
  by (induction ds arbitrary: i acc) (auto simp: Let_def)

lemma decorators_output_loop_first:
  "decorators_output_loop first other 0 (d # ds) [] =
     (first @ ''@'' @ d) # map (\<lambda>x. other @ ''@'' @ x) ds"
  by (simp add: Let_def decorators_output_loop_later)

lemma method_round_append: "method_round mini m out = out @ method_round mini m []"
  by (simp add: method_round_def Let_def)

lemma methods_loop_append:
  "methods_loop mini ms out = out @ concat (map (\<lambda>m. method_round mini m []) ms)"
proof (induction ms arbitrary: out)
  case Nil
  show ?case by simp
next
  case (Cons m ms)
  show ?case
    by (subst methods_loop.simps, subst method_round_append) (simp add: Cons.IH)
qed

lemma function_round_append: "function_round mini f out = out @ function_round mini f []"
  by (simp add: function_round_def Let_def)

lemma functions_loop_append:
  "functions_loop mini fs out = out @ concat (map (\<lambda>f. function_round mini f []) fs)"
proof (induction fs arbitrary: out)
  case Nil
  show ?case by simp
next
  case (Cons f fs)
  show ?case
    by (subst functions_loop.simps, subst function_round_append) (simp add: Cons.IH)
qed

lemma class_round_append: "class_round mini na c out = out @ class_round mini na c []"
  by (simp add: class_round_def Let_def class_decorators_loop_append attributes_loop_append
      methods_loop_append)

lemma classes_loop_append:
  "classes_loop mini na cs out = out @ concat (map (\<lambda>c. class_round mini na c []) cs)"
proof (induction cs arbitrary: out)
  case Nil
  show ?case by simp
next
  case (Cons c cs)
  show ?case
    by (subst classes_loop.simps, subst class_round_append) (simp add: Cons.IH)
qed

lemma join_nonempty: "xs \<noteq> [] \<Longrightarrow> \<forall>x \<in> set xs. x \<noteq> [] \<Longrightarrow> join sep xs \<noteq> []"
  by (induction sep xs rule: join.induct) auto

lemma method_decorators_output_eq:
  "method_decorators_output m =
     (case f_decorators m of [] \<Rightarrow> []
      | d # ds \<Rightarrow> (''    @'' @ d) # map (\<lambda>x. ''    |@'' @ x) ds)"
  by (cases "f_decorators m")
     (simp_all add: method_decorators_output_def decorators_output_loop_first
        del: decorators_output_loop.simps)

lemma function_decorators_output_eq:
  "function_decorators_output f =
     (case f_decorators f of [] \<Rightarrow> []
      | d # ds \<Rightarrow> (''   @'' @ d) # map (\<lambda>x. ''  |@'' @ x) ds)"
  by (cases "f_decorators f")
     (simp_all add: function_decorators_output_def decorators_output_loop_first
        del: decorators_output_loop.simps)

lemma method_round_lines:
  "method_round mini m [] =
     (if f_decorators m = [] then [] else [join nl (method_decorators_output m)])
     @ [(if mini then ''    '' else ''    Method: '') @ f_name m @ ''('' @ args_text m @ '')''
          @ return_text m, []]"
  by (simp add: method_round_def Let_def method_decorators_output_eq split: list.splits)

lemma function_round_lines:
  "function_round mini f [] =
     (if f_decorators f = [] then [] else [join nl (function_decorators_output f)])
     @ [(if mini then ''    '' else ''  Function: '') @ f_name f @ ''('' @ args_text f @ '')''
          @ return_text f, []]"
  by (simp add: function_round_def Let_def function_decorators_output_eq split: list.splits)

lemma method_block_cases:
  "(if f_decorators m = [] then [] else [join nl (method_decorators_output m)]) =
     (case f_decorators m of [] \<Rightarrow> []
      | d # ds \<Rightarrow> [join nl ((''    @'' @ d) # map (\<lambda>x. ''    |@'' @ x) ds)])"
  by (cases "f_decorators m") (simp_all add: method_decorators_output_eq)

lemma function_block_cases:
  "(if f_decorators f = [] then [] else [join nl (function_decorators_output f)]) =
     (case f_decorators f of [] \<Rightarrow> []
      | d # ds \<Rightarrow> [join nl ((''   @'' @ d) # map (\<lambda>x. ''  |@'' @ x) ds)])"
  by (cases "f_decorators f") (simp_all add: function_decorators_output_eq)

lemma attributes_loop_out: "attributes_loop ats (x @ y) = (x @ y) @ attributes_loop ats []"
  by (simp add: attributes_loop_append)

lemma class_round_lines:
  "class_round mini na c [] =
     map (\<lambda>d. ''  @'' @ d) (c_decorators c)
     @ [''  Class: '' @ c_name c, []]
     @ (if \<not> na \<and> c_attributes c \<noteq> [] then attributes_loop (c_attributes c) [] @ [[]] else [])
     @ concat (map (\<lambda>m. method_round mini m []) (c_methods c))"
  by (simp add: class_round_def Let_def class_decorators_loop_append
      attributes_loop_out methods_loop_append [of _ _ "_ @ _"]
      methods_loop_append [of _ _ "_ # _"])

lemma output_lines_eq:
  "output_lines filepath cs fs ic fi mini na =
     (if (ic \<and> cs \<noteq> []) \<or> (fi \<and> fs \<noteq> []) then
        [''=== '' @ filepath @ '': ==='', []]
        @ (if ic then concat (map (\<lambda>c. class_round mini na c []) cs) else [])
        @ (if fi \<and> fs \<noteq> [] then
             (if mini then [''  Functions:'' @ nl] else [])
             @ concat (map (\<lambda>f. function_round mini f []) fs) @ [[]]
           else [])
        @ [[]]
      else [])"
  by (simp add: output_lines_def Let_def classes_loop_append [of _ _ _ "_ # _"]
      functions_loop_append [of _ _ "_ # _"] functions_loop_append [of _ _ "_ @ _"])

lemma top_level_node_classes:
  "fst (top_level_node u ic fi n ([], [])) =
     (if ic \<and> is_class_def n then [class_record u n] else [])"
  by (cases n) simp_all

lemma top_level_node_functions:
  "snd (top_level_node u ic fi n ([], [])) =
     (if fi \<and> is_function_def n then [function_record u n] else [])"
  by (cases n) simp_all

lemma class_child_methods:
  "fst (class_child u c ([], [])) = (if is_function_def c then [function_record u c] else [])"
  by (cases c) simp_all

lemma concat_map_if:
  "concat (map (\<lambda>x. if P x then [f x] else []) xs) = map f (filter P xs)"
  by (induction xs) simp_all

lemma module_loop_eq:
  "module_loop u ic fi stmts ([], []) =
     (if ic then map (class_record u) (filter is_class_def stmts) else [],
      if fi then map (function_record u) (filter is_function_def stmts) else [])"
  by (simp add: module_loop_append top_level_node_classes top_level_node_functions
      concat_map_if)

lemma strip_Nil: "strip [] = []"
  by (simp add: strip_def)

lemma emit_Nil: "emit [] st = st"
  by (simp add: emit_def strip_Nil)

lemma files_loop_process:
  "files_loop E a pats ic fi root files st =
     process_files E a ic fi
       (map (path_join root)
          (filter (\<lambda>file. endswith file ''.py'' \<and> \<not> excluded E pats file) files)) st"
  by (induction files arbitrary: st) (auto simp: Let_def split: sum.splits prod.splits)

lemma process_files_append:
  "process_files E a ic fi (xs @ ys) st =
     (case process_files E a ic fi xs st of
        (st', None) \<Rightarrow> process_files E a ic fi ys st'
      | (st', Some e) \<Rightarrow> (st', Some e))"
  by (induction xs arbitrary: st) (auto split: sum.splits prod.splits)

lemma walk_process:
  "walk_loop E a pats ic fi root tree st =
     process_files E a ic fi (walked_files E pats root tree) st"
  "walk_dirs E a pats ic fi root dirs st =
     process_files E a ic fi (walked_dirs E pats root dirs) st"
proof (induction E a pats ic fi root tree st and E a pats ic fi root dirs st
    rule: walk_loop_walk_dirs.induct)
  case (1 E a pats ic fi root files dirs st)
  then show ?case
    by (simp add: files_loop_process process_files_append split: prod.splits option.splits)
next
  case (2 E a pats ic fi root st)
  show ?case by simp
next
  case (3 E a pats ic fi root d t rest st)
  then show ?case
    by (simp add: process_files_append split: prod.splits option.splits)
qed

lemma run_process:
  "\<not> (args_functions_only a \<and> args_classes_only a) \<Longrightarrow>
   run E a tree =
     process_files E a (\<not> args_functions_only a) (\<not> args_classes_only a)
       (walked_files E (exclude_patterns_of a) (args_directory a) tree) (opened_sinks a)"
  by (auto simp: run_def Let_def walk_process)

section \<open>Signatures\<close>

text \<open>
  C4. A variadic-positional parameter named \<open>x\<close> becomes the pair \<open>(*x, None)\<close> and a
  variadic-keyword parameter named \<open>x\<close> the pair \<open>(**x, None)\<close>, after the plain
  parameters and in this order; an annotation on either (\<open>t1\<close>, \<open>t2\<close> below) has
  no effect on the result, and the pair is rendered as the bare name.
\<close>

theorem C4_variadic_parameters_untyped:
  "fst (get_arguments_and_hints u node) =
     args_loop u (args (fn_args node)) []
     @ (case vararg (fn_args node) of None \<Rightarrow> [] | Some v \<Rightarrow> [(''*'' @ arg v, None)])
     @ (case kwarg (fn_args node) of None \<Rightarrow> [] | Some k \<Rightarrow> [(''**'' @ arg k, None)])
   \<and> get_arguments_and_hints u
       (FunctionDef n (a\<lparr>vararg := Some (v\<lparr>annotation := t1\<rparr>),
                         kwarg := Some (k\<lparr>annotation := t2\<rparr>)\<rparr>) b d r)
     = (args_loop u (args a) [] @ [(''*'' @ arg v, None), (''**'' @ arg k, None)],
        map_option u r)
   \<and> arg_text (''*'' @ arg v, None) = ''*'' @ arg v
   \<and> arg_text (''**'' @ arg k, None) = ''**'' @ arg k"
  by (simp add: get_arguments_and_hints_def arg_text_def truthy_def split: option.splits)

theorem C4_variadic_parameters_untyped_witness:
  "get_arguments_and_hints sample_unparse
     (FunctionDef ''f''
        (no_arguments\<lparr>args := [\<lparr>arg = ''a'', annotation = Some (Name ''int'')\<rparr>],
           vararg := Some \<lparr>arg = ''rest'', annotation = Some (Name ''str'')\<rparr>,
           kwarg := Some \<lparr>arg = ''opts'', annotation = Some (Name ''bool'')\<rparr>\<rparr>)
        [Pass] [] None)
   = ([(''a'', Some ''int''), (''*rest'', None), (''**opts'', None)], None)"
  using C4_variadic_parameters_untyped [of sample_unparse
      "FunctionDef ''f''
        (no_arguments\<lparr>args := [\<lparr>arg = ''a'', annotation = Some (Name ''int'')\<rparr>],
           vararg := Some \<lparr>arg = ''rest'', annotation = Some (Name ''str'')\<rparr>,
           kwarg := Some \<lparr>arg = ''opts'', annotation = Some (Name ''bool'')\<rparr>\<rparr>)
        [Pass] [] None"]
  by (simp add: get_arguments_and_hints_def no_arguments_def)

text \<open>
  C9. Positional-only and keyword-only parameters never reach the result: whatever
  \<^verbatim>\<open>posonlyargs\<close>, \<^verbatim>\<open>kwonlyargs\<close> and \<^verbatim>\<open>kw_defaults\<close> hold, the
  pairs returned are those of the signature without them; the names returned are the
  plain parameters, then \<open>*vararg\<close>, then \<open>**kwarg\<close>; and the rendered argument list
  is that of the signature with both lists emptied.
\<close>

theorem C9_only_plain_and_variadic_parameters:
  "get_arguments_and_hints u
       (FunctionDef n (a\<lparr>posonlyargs := ps, kwonlyargs := ks, kw_defaults := kd\<rparr>) b d r)
     = get_arguments_and_hints u (FunctionDef n a b d r)
   \<and> map fst (fst (get_arguments_and_hints u (FunctionDef n a b d r))) =
       map arg (args a)
       @ (case vararg a of None \<Rightarrow> [] | Some v \<Rightarrow> [''*'' @ arg v])
       @ (case kwarg a of None \<Rightarrow> [] | Some k \<Rightarrow> [''**'' @ arg k])
   \<and> args_text (function_record u
         (FunctionDef n (a\<lparr>posonlyargs := ps, kwonlyargs := ks, kw_defaults := kd\<rparr>) b d r))
     = args_text (function_record u
         (FunctionDef n (a\<lparr>posonlyargs := [], kwonlyargs := [], kw_defaults := []\<rparr>) b d r))"
  by (simp add: get_arguments_and_hints_def function_record_def args_text_def
      args_loop_append comp_def split: option.splits)

section \<open>Decorators\<close>

text \<open>
  C5, as stated, fails on keyword arguments: \<^verbatim>\<open>@dataclass(frozen=True)\<close> is a call
  with one argument and is rendered \<^verbatim>\<open>dataclass\<close>, without parentheses, and
  \<^verbatim>\<open>@route(1, methods=GET)\<close> is rendered \<^verbatim>\<open>route(1)\<close>: only
  \<^verbatim>\<open>decorator.args\<close>, the positional arguments, are read.
\<close>

theorem C5_call_decorator_counterexample:
  "get_decorators sample_unparse
     (FunctionDef ''f'' no_arguments [Pass]
        [Call (Name ''dataclass'') [] [(Some ''frozen'', Constant ''True'')]] None)
   = [''dataclass'']
   \<and> get_decorators sample_unparse
     (FunctionDef ''f'' no_arguments [Pass]
        [Call (Name ''route'') [Constant ''1''] [(Some ''methods'', Name ''GET'')]] None)
   = [''route(1)'']"
  by (simp add: get_decorators_def)

text \<open>
  C5, amended. For a decorator that is a call, with positional arguments \<open>cargs\<close>
  whose texts are not empty and any keyword arguments: the text is the callee's text
  when there is no positional argument, and otherwise the callee's text followed by the
  texts of the positional arguments, joined by a comma and a space, in parentheses;
  keyword arguments are never rendered. With no positional argument the text of a
  call of a name is that of the bare name. The text stands at the decorator's place in
  the result of \<^verbatim>\<open>get_decorators\<close>.
\<close>

theorem C5_call_decorator_text:
  assumes "\<forall>x \<in> set cargs. u x \<noteq> []"
  shows "decorator_text u (Call func cargs keywords) =
           (if cargs = [] then u func
            else u func @ ''('' @ join '', '' (map u cargs) @ '')'')
         \<and> (u (Name ident) = ident \<longrightarrow>
              decorator_text u (Call (Name ident) [] keywords) = decorator_text u (Name ident))
         \<and> get_decorators u (FunctionDef n a b (before @ Call func cargs keywords # after) r) =
             map (decorator_text u) before
             @ [if cargs = [] then u func
                else u func @ ''('' @ join '', '' (map u cargs) @ '')'']
             @ map (decorator_text u) after"
proof -
  have nz: "cargs \<noteq> [] \<Longrightarrow> join '', '' (map u cargs) \<noteq> []"
    using assms by (intro join_nonempty) auto
  have call: "decorator_text u (Call func cargs keywords) =
           (if cargs = [] then u func
            else u func @ ''('' @ join '', '' (map u cargs) @ '')'')"
    by (cases "cargs = []") (simp_all add: Let_def nz)
  have bare: "u (Name ident) = ident \<longrightarrow>
      decorator_text u (Call (Name ident) [] keywords) = decorator_text u (Name ident)"
    by simp
  have whole: "get_decorators u (FunctionDef n a b (before @ Call func cargs keywords # after) r) =
      map (decorator_text u) before @ [decorator_text u (Call func cargs keywords)]
      @ map (decorator_text u) after"
    by (simp add: get_decorators_def get_decorators_loop_append del: decorator_text.simps)
  show ?thesis
    by (intro conjI) (rule call, rule bare, simp only: whole call)
qed

theorem C5_call_decorator_text_witness:
  "list_all (\<lambda>x. sample_unparse x \<noteq> []) [Constant ''1'', Name ''x'']
   \<and> decorator_text sample_unparse (Call (Name ''route'') [Constant ''1'', Name ''x''] []) =
       ''route(1, x)''
   \<and> decorator_text sample_unparse (Call (Name ''cache'') [] []) = ''cache''
   \<and> decorator_text sample_unparse (Name ''cache'') = ''cache''"
proof -
  have h: "\<forall>x \<in> set [Constant ''1'', Name ''x'']. sample_unparse x \<noteq> []"
    by simp
  have e: "\<forall>x \<in> set ([] :: expr list). sample_unparse x \<noteq> []"
    by simp
  show ?thesis
    using h C5_call_decorator_text [OF h, of "Name ''route''" "[]"]
      C5_call_decorator_text [OF e, of "Name ''cache''" "[]"]
    by simp
qed

section \<open>Class attributes\<close>

text \<open>
  C6, as stated, fails on an assignment with several targets: \<^verbatim>\<open>x = y = 0\<close> in a
  class body is not skipped, it yields the attribute \<^verbatim>\<open>x\<close>.
\<close>

theorem C6_first_target_counterexample:
  "snd (class_body_loop sample_unparse
          [Assign (Name ''x'') [Name ''y''] (Constant ''0'')] ([], []))
   = [\<lparr>a_name = ''x'', a_type = None\<rparr>]"
  by (simp add: add_attribute_def target_name_def)

text \<open>
  C6, amended. An assignment in a class body yields one attribute record, without type,
  exactly when its first target is a simple name (of at least one character), whatever
  the further targets are, and no record otherwise; an annotated assignment yields one
  record, with the annotation's text as type, exactly when its target is a simple name,
  and no record otherwise. No case fails. The attributes of a class are these records in the order of the class body.
\<close>

theorem C6_attribute_of_first_target:
  "class_child u (Assign target0 targets v) (ms, ats) =
     (ms, case target0 of
            Name ident \<Rightarrow> if ident = [] then ats else ats @ [\<lparr>a_name = ident, a_type = None\<rparr>]
          | _ \<Rightarrow> ats)
   \<and> class_child u (AnnAssign target ann v') (ms, ats) =
     (ms, case target of
            Name ident \<Rightarrow>
              if ident = [] then ats else ats @ [\<lparr>a_name = ident, a_type = Some (u ann)\<rparr>]
          | _ \<Rightarrow> ats)
   \<and> c_attributes (class_record u (ClassDef n bs stmts d)) =
       concat (map (\<lambda>child. snd (class_child u child ([], []))) stmts)"
  by (simp add: add_attribute_def target_name_def class_record_def class_body_loop_append
      split: expr.splits)

theorem C6_attribute_of_first_target_witness:
  "c_attributes (class_record sample_unparse
     (ClassDef ''P'' []
        [AnnAssign (Name ''x'') (Name ''int'') None,
         Assign (Tuple [Name ''a'', Name ''b'']) [] (Constant ''0''),
         Assign (Attribute (Name ''P'') ''z'') [] (Constant ''0''),
         Assign (Name ''y'') [Name ''w''] (Constant ''0'')] []))
   = [\<lparr>a_name = ''x'', a_type = Some ''int''\<rparr>, \<lparr>a_name = ''y'', a_type = None\<rparr>]"
  using C6_attribute_of_first_target [of sample_unparse "Name ''y''" "[Name ''w'']"
      "Constant ''0''" "[]" "[]" "Name ''x''" "Name ''int''" None "''P''" "[]"
      "[AnnAssign (Name ''x'') (Name ''int'') None,
         Assign (Tuple [Name ''a'', Name ''b'']) [] (Constant ''0''),
         Assign (Attribute (Name ''P'') ''z'') [] (Constant ''0''),
         Assign (Name ''y'') [Name ''w''] (Constant ''0'')]" "[]"]
  by (simp add: add_attribute_def target_name_def)

section \<open>Asynchronous definitions\<close>

text \<open>
  C10. An \<^verbatim>\<open>async def\<close> adds nothing, neither at the top level of a file nor in a
  class body: both loops return what they return on the body without it.
\<close>

theorem C10_async_definitions_ignored:
  "top_level_node u ic fi (AsyncFunctionDef n a b d r) acc = acc
   \<and> class_child u (AsyncFunctionDef n a b d r) acc2 = acc2
   \<and> module_loop u ic fi (before @ AsyncFunctionDef n a b d r # after) acc =
       module_loop u ic fi (before @ after) acc
   \<and> class_body_loop u (before @ AsyncFunctionDef n a b d r # after) acc2 =
       class_body_loop u (before @ after) acc2"
proof -
  obtain cs fs where acc: "acc = (cs, fs)" by (cases acc)
  obtain ms ats where acc2: "acc2 = (ms, ats)" by (cases acc2)
  show ?thesis
    by (simp add: acc acc2 module_loop_append class_body_loop_append)
qed

section \<open>Order of the records and of the report\<close>

text \<open>
  C7. Every sequence keeps the order of the source, without sorting, removing duplicates
  or merging: the classes and the functions of a file are the records of its class and
  function definitions, one per definition and in their order; the methods of a class
  are the records of the function definitions of its body, its attributes what each
  statement of the body yields, in the order of the body; decorators are rendered one by
  one in their order; the parameters are the plain parameters as declared, then the
  variadic-positional one, then the variadic-keyword one, and the rendered argument list
  joins them in this order; the report lists the classes, each with its decorators,
  attributes and methods, and then the functions, in the order of these sequences.
\<close>

theorem C7_source_order_kept:
  "module_loop u ic fi stmts ([], []) =
     (if ic then map (class_record u) (filter is_class_def stmts) else [],
      if fi then map (function_record u) (filter is_function_def stmts) else [])
   \<and> c_methods (class_record u node) =
       map (function_record u) (filter is_function_def (body node))
   \<and> c_attributes (class_record u node) =
       concat (map (\<lambda>child. snd (class_child u child ([], []))) (body node))
   \<and> c_decorators (class_record u node) = map (decorator_text u) (decorator_list node)
   \<and> f_decorators (function_record u node) = map (decorator_text u) (decorator_list node)
   \<and> f_args (function_record u node) =
       map (\<lambda>a. (arg a, map_option u (annotation a))) (args (fn_args node))
       @ (case vararg (fn_args node) of None \<Rightarrow> [] | Some v \<Rightarrow> [(''*'' @ arg v, None)])
       @ (case kwarg (fn_args node) of None \<Rightarrow> [] | Some k \<Rightarrow> [(''**'' @ arg k, None)])
   \<and> args_text (function_record u node) =
       join '', ''
         (map (\<lambda>a. arg_text (arg a, map_option u (annotation a))) (args (fn_args node))
          @ (case vararg (fn_args node) of None \<Rightarrow> [] | Some v \<Rightarrow> [''*'' @ arg v])
          @ (case kwarg (fn_args node) of None \<Rightarrow> [] | Some k \<Rightarrow> [''**'' @ arg k]))
   \<and> output_lines filepath cs fs True True mini na =
       (if cs = [] \<and> fs = [] then []
        else [''=== '' @ filepath @ '': ==='', []]
             @ concat (map (\<lambda>c. class_round mini na c []) cs)
             @ (if fs = [] then []
                else (if mini then [''  Functions:'' @ nl] else [])
                     @ concat (map (\<lambda>f. function_round mini f []) fs) @ [[]])
             @ [[]])
   \<and> class_round mini na c [] =
       map (\<lambda>d. ''  @'' @ d) (c_decorators c)
       @ [''  Class: '' @ c_name c, []]
       @ (if \<not> na \<and> c_attributes c \<noteq> []
          then map (\<lambda>at. ''    '' @ a_name at @
                     (case a_type at of None \<Rightarrow> []
                      | Some t \<Rightarrow> if t = [] then [] else '': '' @ t)) (c_attributes c) @ [[]]
          else [])
       @ concat (map (\<lambda>m. method_round mini m []) (c_methods c))"
proof -
  have methods: "c_methods (class_record u node) =
       map (function_record u) (filter is_function_def (body node))"
    by (simp add: class_record_def class_body_loop_append class_child_methods concat_map_if)
  have attributes: "c_attributes (class_record u node) =
       concat (map (\<lambda>child. snd (class_child u child ([], []))) (body node))"
    by (simp add: class_record_def class_body_loop_append)
  have cdec: "c_decorators (class_record u node) = map (decorator_text u) (decorator_list node)"
    by (simp add: class_record_def class_body_loop_append get_decorators_def
        get_decorators_loop_append)
  have fdec: "f_decorators (function_record u node) = map (decorator_text u) (decorator_list node)"
    by (simp add: function_record_def get_decorators_def get_decorators_loop_append
        split: prod.splits)
  have fargs: "f_args (function_record u node) =
       map (\<lambda>a. (arg a, map_option u (annotation a))) (args (fn_args node))
       @ (case vararg (fn_args node) of None \<Rightarrow> [] | Some v \<Rightarrow> [(''*'' @ arg v, None)])
       @ (case kwarg (fn_args node) of None \<Rightarrow> [] | Some k \<Rightarrow> [(''**'' @ arg k, None)])"
    by (simp add: function_record_def get_arguments_and_hints_def args_loop_append
        split: option.splits)
  have rendered: "args_text (function_record u node) =
       join '', ''
         (map (\<lambda>a. arg_text (arg a, map_option u (annotation a))) (args (fn_args node))
          @ (case vararg (fn_args node) of None \<Rightarrow> [] | Some v \<Rightarrow> [''*'' @ arg v])
          @ (case kwarg (fn_args node) of None \<Rightarrow> [] | Some k \<Rightarrow> [''**'' @ arg k]))"
    unfolding args_text_def fargs
    by (simp add: arg_text_def truthy_def comp_def split: option.splits)
  have lines: "output_lines filepath cs fs True True mini na =
       (if cs = [] \<and> fs = [] then []
        else [''=== '' @ filepath @ '': ==='', []]
             @ concat (map (\<lambda>c. class_round mini na c []) cs)
             @ (if fs = [] then []
                else (if mini then [''  Functions:'' @ nl] else [])
                     @ concat (map (\<lambda>f. function_round mini f []) fs) @ [[]])
             @ [[]])"
    by (simp add: output_lines_eq)
  have cround: "class_round mini na c [] =
       map (\<lambda>d. ''  @'' @ d) (c_decorators c)
       @ [''  Class: '' @ c_name c, []]
       @ (if \<not> na \<and> c_attributes c \<noteq> []
          then map (\<lambda>at. ''    '' @ a_name at @
                     (case a_type at of None \<Rightarrow> []
                      | Some t \<Rightarrow> if t = [] then [] else '': '' @ t)) (c_attributes c) @ [[]]
          else [])
       @ concat (map (\<lambda>m. method_round mini m []) (c_methods c))"
    by (simp add: class_round_lines attributes_loop_append)
  show ?thesis
    by (intro conjI) (rule module_loop_eq methods attributes cdec fdec fargs rendered lines cround)+
qed

theorem C7_source_order_kept_witness:
  "map f_name (snd (module_loop sample_unparse True True
     [FunctionDef ''b'' no_arguments [Pass] [] None,
      ClassDef ''Z'' [] [Pass] [],
      FunctionDef ''a'' no_arguments [Pass] [] None,
      ClassDef ''Y'' [] [Pass] [],
      FunctionDef ''b'' no_arguments [Pass] [] None] ([], []))) = [''b'', ''a'', ''b'']
   \<and> map c_name (fst (module_loop sample_unparse True True
     [FunctionDef ''b'' no_arguments [Pass] [] None,
      ClassDef ''Z'' [] [Pass] [],
      FunctionDef ''a'' no_arguments [Pass] [] None,
      ClassDef ''Y'' [] [Pass] [],
      FunctionDef ''b'' no_arguments [Pass] [] None] ([], []))) = [''Z'', ''Y'']"
  using C7_source_order_kept [of sample_unparse True True
     "[FunctionDef ''b'' no_arguments [Pass] [] None,
      ClassDef ''Z'' [] [Pass] [],
      FunctionDef ''a'' no_arguments [Pass] [] None,
      ClassDef ''Y'' [] [Pass] [],
      FunctionDef ''b'' no_arguments [Pass] [] None]"]
  by (simp add: function_record_def class_record_def split: prod.splits)

section \<open>The labels and the decorator blocks of the report\<close>

text \<open>
  C2, as stated, fails for the class line: in minimalistic mode a class \<^verbatim>\<open>A\<close> is
  still rendered as \<^verbatim>\<open>  Class: A\<close>.
\<close>

theorem C2_class_label_counterexample:
  "output_lines ''p.py''
     [\<lparr>c_name = ''A'', c_decorators = [], c_methods = [], c_attributes = []\<rparr>] []
     True True True False
   = [''=== p.py: ==='', [], ''  Class: A'', [], []]
   \<and> format_output ''p.py''
     [\<lparr>c_name = ''A'', c_decorators = [], c_methods = [], c_attributes = []\<rparr>] []
     True True True False
   = ''=== p.py: ==='' @ nl @ nl @ ''  Class: A'' @ nl @ nl"
  by (simp add: format_output_def output_lines_def class_round_def)

text \<open>
  C2, amended. In minimalistic mode the line of a method and the line of a function are
  four spaces and \<^verbatim>\<open>name(args)return\<close>, without the labels \<^verbatim>\<open>Method:\<close>
  and \<^verbatim>\<open>Function:\<close> of the full mode, and the functions follow the header
  \<^verbatim>\<open>  Functions:\<close>; the line of a class is \<^verbatim>\<open>  Class: name\<close> in both
  modes. The equation gives every line of the report in either mode.
\<close>

theorem C2_labels_by_mode:
  "output_lines filepath cs fs ic fi mini na =
     (if (ic \<and> cs \<noteq> []) \<or> (fi \<and> fs \<noteq> []) then
        [''=== '' @ filepath @ '': ==='', []]
        @ (if ic then concat (map (\<lambda>c.
               map (\<lambda>d. ''  @'' @ d) (c_decorators c)
               @ [''  Class: '' @ c_name c, []]
               @ (if \<not> na \<and> c_attributes c \<noteq> []
                  then attributes_loop (c_attributes c) [] @ [[]] else [])
               @ concat (map (\<lambda>m.
                    (if f_decorators m = [] then [] else [join nl (method_decorators_output m)])
                    @ [(if mini then ''    '' else ''    Method: '')
                         @ f_name m @ ''('' @ args_text m @ '')'' @ return_text m, []])
                  (c_methods c))) cs)
           else [])
        @ (if fi \<and> fs \<noteq> [] then
             (if mini then [''  Functions:'' @ nl] else [])
             @ concat (map (\<lambda>f.
                  (if f_decorators f = [] then [] else [join nl (function_decorators_output f)])
                  @ [(if mini then ''    '' else ''  Function: '')
                       @ f_name f @ ''('' @ args_text f @ '')'' @ return_text f, []]) fs)
             @ [[]]
           else [])
        @ [[]]
      else [])"
  unfolding output_lines_eq class_round_lines method_round_lines function_round_lines
  by (rule refl)

theorem C2_labels_by_mode_witness:
  "output_lines ''p.py''
     [\<lparr>c_name = ''A'', c_decorators = [],
       c_methods = [\<lparr>f_name = ''m'', f_args = [(''self'', None)], f_return_type = Some ''int'',
                     f_decorators = []\<rparr>],
       c_attributes = []\<rparr>]
     [\<lparr>f_name = ''g'', f_args = [], f_return_type = None, f_decorators = []\<rparr>]
     True True True False
   = [''=== p.py: ==='', [], ''  Class: A'', [], ''    m(self) -> int'', [],
      ''  Functions:'' @ nl, ''    g()'', [], [], []]"
  unfolding C2_labels_by_mode
  by (simp add: args_text_def arg_text_def return_text_def truthy_def)

text \<open>
  C8. In the report of a file, every method of every class that has decorators \<open>d # ds\<close>
  is rendered as one block of lines before the line of the method: the first line is
  four spaces, \<^verbatim>\<open>@\<close> and \<open>d\<close>, every further line is four spaces,
  \<^verbatim>\<open>|@\<close> and the decorator. Every top-level function that has decorators
  \<open>d # ds\<close> is rendered likewise before the line of the function, with three spaces
  and \<^verbatim>\<open>@\<close> on the first line and two spaces and \<^verbatim>\<open>|@\<close> on every
  further line. A method or function without decorators has no block. The equation
  gives the whole text returned by \<^verbatim>\<open>format_output\<close>.
\<close>

theorem C8_decorator_blocks_in_report:
  "format_output filepath cs fs ic fi mini na =
     join nl
       (if (ic \<and> cs \<noteq> []) \<or> (fi \<and> fs \<noteq> []) then
          [''=== '' @ filepath @ '': ==='', []]
          @ (if ic then concat (map (\<lambda>c.
                 map (\<lambda>d. ''  @'' @ d) (c_decorators c)
                 @ [''  Class: '' @ c_name c, []]
                 @ (if \<not> na \<and> c_attributes c \<noteq> []
                    then attributes_loop (c_attributes c) [] @ [[]] else [])
                 @ concat (map (\<lambda>m.
                      (case f_decorators m of
                         [] \<Rightarrow> []
                       | d # ds \<Rightarrow>
                           [join nl ((''    @'' @ d) # map (\<lambda>x. ''    |@'' @ x) ds)])
                      @ [(if mini then ''    '' else ''    Method: '')
                           @ f_name m @ ''('' @ args_text m @ '')'' @ return_text m, []])
                    (c_methods c))) cs)
             else [])
          @ (if fi \<and> fs \<noteq> [] then
               (if mini then [''  Functions:'' @ nl] else [])
               @ concat (map (\<lambda>f.
                    (case f_decorators f of
                       [] \<Rightarrow> []
                     | d # ds \<Rightarrow>
                         [join nl ((''   @'' @ d) # map (\<lambda>x. ''  |@'' @ x) ds)])
                    @ [(if mini then ''    '' else ''  Function: '')
                         @ f_name f @ ''('' @ args_text f @ '')'' @ return_text f, []]) fs)
               @ [[]]
             else [])
          @ [[]]
        else [])"
  unfolding format_output_def output_lines_eq class_round_lines method_round_lines
    function_round_lines method_block_cases function_block_cases
  by (rule refl)

theorem C8_decorator_blocks_in_report_witness:
  "format_output ''p.py''
     [\<lparr>c_name = ''A'', c_decorators = [],
       c_methods = [\<lparr>f_name = ''m'', f_args = [(''self'', None)], f_return_type = None,
                     f_decorators = [''staticmethod'', ''cache'', ''log'']\<rparr>],
       c_attributes = []\<rparr>]
     [\<lparr>f_name = ''add'', f_args = [(''a'', None), (''b'', None)], f_return_type = None,
       f_decorators = [''staticmethod'', ''cache'', ''log'']\<rparr>]
     True True False False
   = ''=== p.py: ==='' @ nl @ nl
     @ ''  Class: A'' @ nl @ nl
     @ ''    @staticmethod'' @ nl @ ''    |@cache'' @ nl @ ''    |@log'' @ nl
     @ ''    Method: m(self)'' @ nl @ nl
     @ ''   @staticmethod'' @ nl @ ''  |@cache'' @ nl @ ''  |@log'' @ nl
     @ ''  Function: add(a, b)'' @ nl @ nl @ nl"
  unfolding C8_decorator_blocks_in_report
  by (simp add: args_text_def arg_text_def return_text_def truthy_def)

section \<open>Files with nothing to report\<close>

text \<open>
  C3. When a file has no class definition unless classes are excluded, and no function
  definition unless functions are excluded, \<^verbatim>\<open>analyze_file\<close> returns no record,
  \<^verbatim>\<open>format_output\<close> returns the empty text (also for any records of an excluded
  kind), and the loop of \<^verbatim>\<open>run\<close> writes nothing for the file and goes on with
  the next one.
\<close>

theorem C3_nothing_to_render:
  assumes "\<forall>n \<in> set stmts. (is_class_def n \<longrightarrow> \<not> ic) \<and> (is_function_def n \<longrightarrow> \<not> fi)"
    and "open_read E (path_join root file) = Inr text"
    and "ast_parse E text = Inr stmts"
  shows "analyze_file E (path_join root file) ic fi = Inr ([], [])
       \<and> format_output filepath (if ic then [] else cs) (if fi then [] else fs) ic fi mini na = []
       \<and> files_loop E a pats ic fi root (file # rest) st =
           files_loop E a pats ic fi root rest st"
proof -
  have no_class: "filter is_class_def stmts = []" if ic
    using assms(1) that by (auto simp: filter_empty_conv)
  have no_function: "filter is_function_def stmts = []" if fi
    using assms(1) that by (auto simp: filter_empty_conv)
  have no_records: "module_loop (ast_unparse E) ic fi stmts ([], []) = ([], [])"
    by (simp add: module_loop_eq no_class no_function)
  have analysed: "analyze_file E (path_join root file) ic fi = Inr ([], [])"
    by (simp add: analyze_file_def assms(2,3) no_records)
  have empty: "format_output p (if ic then [] else cs) (if fi then [] else fs) ic fi mini na = []"
    for p mini na
    by (simp add: format_output_def output_lines_def)
  have "format_output p [] [] ic fi m n = []" for p m n
    by (simp add: format_output_def output_lines_def)
  then have skipped: "files_loop E a pats ic fi root (file # rest) st =
      files_loop E a pats ic fi root rest st"
    by (simp add: analysed emit_Nil Let_def)
  show ?thesis
    using analysed empty skipped by simp
qed

theorem C3_nothing_to_render_witness:
  "analyze_file sample_externals ''./good.py'' True False = Inr ([], [])
   \<and> format_output ''./good.py'' [] [] True False False False = []
   \<and> files_loop sample_externals (sample_args\<lparr>args_classes_only := True\<rparr>) DEFAULT_EXCLUDES
       True False ''.'' [''good.py''] \<lparr>stdout = [], output_file = None\<rparr> =
     (\<lparr>stdout = [], output_file = None\<rparr>, None)"
proof -
  have p: "path_join ''.'' ''good.py'' = ''./good.py''"
    by (simp add: path_join_def endswith_def)
  have h1: "\<forall>n \<in> set [FunctionDef ''f'' no_arguments [Pass] [] None].
      (is_class_def n \<longrightarrow> \<not> True) \<and> (is_function_def n \<longrightarrow> \<not> False)"
    by simp
  have h2: "open_read sample_externals (path_join ''.'' ''good.py'') = Inr ''def f(): pass''"
    by (simp add: p sample_externals_def)
  have h3: "ast_parse sample_externals ''def f(): pass'' =
      Inr [FunctionDef ''f'' no_arguments [Pass] [] None]"
    by (simp add: sample_externals_def)
  show ?thesis
    using C3_nothing_to_render [OF h1 h2 h3, of "''./good.py''" "[]" "[]" False False
        "sample_args\<lparr>args_classes_only := True\<rparr>" DEFAULT_EXCLUDES "[]"
        "\<lparr>stdout = [], output_file = None\<rparr>"]
    by (simp add: p)
qed

section \<open>Files that do not parse\<close>

text \<open>
  C1, as stated, fails: \<^verbatim>\<open>run\<close> does not go on after a file that does not
  parse. With \<^verbatim>\<open>bad.py\<close> before \<^verbatim>\<open>good.py\<close> in a directory, the run
  ends with the syntax error and has written nothing, although \<^verbatim>\<open>good.py\<close>
  alone is reported.
\<close>

theorem C1_run_stops_counterexample:
  "run sample_externals sample_args (Dir [''bad.py'', ''good.py''] []) =
     (\<lparr>stdout = [], output_file = None\<rparr>, Some SyntaxError)
   \<and> run sample_externals sample_args (Dir [''good.py''] []) =
     (\<lparr>stdout = ''=== ./good.py: ==='' @ nl @ nl @ ''  Function: f()'' @ nl @ nl @ nl @ nl,
       output_file = None\<rparr>, None)"
  by code_simp

text \<open>
  C1, amended. When the text of a file does not parse, \<^verbatim>\<open>analyze_file\<close> fails
  with the parser's error. Nothing in \<^verbatim>\<open>run\<close> catches it: when the files
  walked before this one were processed without error, the run ends at this file with
  that error and with what had been written for the earlier files; no later file is
  processed.
\<close>

theorem C1_parse_failure_ends_run:
  assumes "open_read E filepath = Inr text"
    and "ast_parse E text = Inl e"
    and "\<not> (args_functions_only a \<and> args_classes_only a)"
    and "walked_files E (exclude_patterns_of a) (args_directory a) tree =
           before @ filepath # after"
    and "process_files E a (\<not> args_functions_only a) (\<not> args_classes_only a) before
           (opened_sinks a) = (st, None)"
  shows "analyze_file E filepath ic fi = Inl e \<and> run E a tree = (st, Some e)"
proof -
  have failure: "analyze_file E filepath ic fi = Inl e" for ic fi
    using assms(1,2) by (simp add: analyze_file_def)
  have "run E a tree =
      process_files E a (\<not> args_functions_only a) (\<not> args_classes_only a)
        (before @ filepath # after) (opened_sinks a)"
    using assms(3,4) by (simp add: run_process)
  also have "\<dots> = (st, Some e)"
    by (simp add: process_files_append assms(5) failure)
  finally show ?thesis
    using failure by simp
qed

theorem C1_parse_failure_ends_run_witness:
  "analyze_file sample_externals ''./bad.py'' True True = Inl SyntaxError
   \<and> run sample_externals sample_args (Dir [''good.py'', ''bad.py'', ''good.py''] []) =
     (\<lparr>stdout = ''=== ./good.py: ==='' @ nl @ nl @ ''  Function: f()'' @ nl @ nl @ nl @ nl,
       output_file = None\<rparr>, Some SyntaxError)"
proof -
  have h1: "open_read sample_externals ''./bad.py'' = Inr ''def f(:''"
    by (simp add: sample_externals_def)
  have h2: "ast_parse sample_externals ''def f(:'' = Inl SyntaxError"
    by (simp add: sample_externals_def)
  have h3: "\<not> (args_functions_only sample_args \<and> args_classes_only sample_args)"
    by (simp add: sample_args_def)
  have h4: "walked_files sample_externals (exclude_patterns_of sample_args)
      (args_directory sample_args) (Dir [''good.py'', ''bad.py'', ''good.py''] []) =
      [''./good.py''] @ ''./bad.py'' # [''./good.py'']"
    by code_simp
  have h5: "process_files sample_externals sample_args (\<not> args_functions_only sample_args)
      (\<not> args_classes_only sample_args) [''./good.py''] (opened_sinks sample_args) =
      (\<lparr>stdout = ''=== ./good.py: ==='' @ nl @ nl @ ''  Function: f()'' @ nl @ nl @ nl @ nl,
        output_file = None\<rparr>, None)"
    by code_simp
  show ?thesis
    using C1_parse_failure_ends_run [OF h1 h2 h3 h4 h5, of True True] by simp
qed

end
